theory Spec2Isabelle
  imports Complex_Main
begin

section \<open>The schema builder of predict.py\<close>

text \<open>
  \<^verbatim>\<open>dtype_mapping.get(str(dtype), str(dtype))\<close> yields either one of the Python types
  \<^verbatim>\<open>float\<close> and \<^verbatim>\<open>int\<close> or, by the default of \<^verbatim>\<open>get\<close>, the dtype's own name, a string.
\<close>

datatype py_type = PyFloat | PyInt | Label string

text \<open>
  A Python \<^verbatim>\<open>dict\<close> keeps insertion order: it is an association list with distinct keys.
  \<^verbatim>\<open>d.get(k, default)\<close> and \<^verbatim>\<open>d[k] = v\<close> (an existing key keeps its place and takes the
  new value, a new key goes to the end).
\<close>

definition dict_get :: "('k \<times> 'v) list \<Rightarrow> 'k \<Rightarrow> 'v \<Rightarrow> 'v" where
  "dict_get d k dflt = (case map_of d k of Some v \<Rightarrow> v | None \<Rightarrow> dflt)"

fun dict_set :: "('k \<times> 'v) list \<Rightarrow> 'k \<Rightarrow> 'v \<Rightarrow> ('k \<times> 'v) list" where
  "dict_set [] k v = [(k, v)]"
| "dict_set ((k', v') # d) k v =
     (if k' = k then (k, v) # d else (k', v') # dict_set d k v)"

definition dtype_mapping :: "(string \<times> py_type) list" where
  "dtype_mapping = [(''float64'', PyFloat), (''int64'', PyInt), (''uint8'', PyInt)]"

text \<open>
  The loop of lines 30 to 32 over \<^verbatim>\<open>X.dtypes.items()\<close>, a listing of (column, dtype name);
  the second argument is the dictionary \<^verbatim>\<open>feature_types\<close> built so far.
\<close>

fun feature_types_loop ::
  "(string \<times> string) list \<Rightarrow> (string \<times> py_type) list \<Rightarrow> (string \<times> py_type) list" where
  "feature_types_loop [] feature_types = feature_types"
| "feature_types_loop ((column, dtype) # rest) feature_types =
     (let python_type = dict_get dtype_mapping dtype (Label dtype)
      in feature_types_loop rest (dict_set feature_types column python_type))"

text \<open>\<^verbatim>\<open>feature_types = {}\<close> followed by the loop.\<close>

definition build_feature_types :: "(string \<times> string) list \<Rightarrow> (string \<times> py_type) list" where
  "build_feature_types dtypes_items = feature_types_loop dtypes_items []"


section \<open>Python values, exceptions and frames\<close>

text \<open>
  The values of a JSON body and of a validated record. The service never computes with a
  float, it only carries it from the request to the model, so a float is the real number it
  stands for.
\<close>

datatype pyval = PNone | PBool bool | PInt int | PFloat real | PStr string
  | PList "pyval list" | PDict "(string \<times> pyval) list"

datatype exn_class = KeyError | IndexError | NameError | AttributeError | ValueError
  | FileNotFoundError | OtherException

text \<open>A raised exception: its class and \<^verbatim>\<open>str(e)\<close>.\<close>

type_synonym exc = "exn_class \<times> string"

text \<open>
  What ends the import of predict.py: an exception no clause catches, kept by its class, or
  the \<^verbatim>\<open>HTTPException(status_code, detail)\<close> raised by the clauses of lines 47 to 50.
\<close>

datatype failure = Raised exn_class | HTTPException nat string

text \<open>
  A frame of one row, as \<^verbatim>\<open>pd.DataFrame([data.model_dump()])\<close> builds it: the columns in
  order, each with its value. The schema side of a frame is its listing of (column, dtype).
\<close>

type_synonym frame = "(string \<times> pyval) list"

text \<open>
  The object that \<^verbatim>\<open>joblib.load\<close> returns: \<^verbatim>\<open>None\<close>, or a pipeline whose \<^verbatim>\<open>predict\<close> takes a
  frame and returns the array of class codes or raises.
\<close>

datatype model_obj = PyNoneObj | Pipeline "frame \<Rightarrow> exc + int list"

text \<open>
  The array that \<^verbatim>\<open>imputer.fit_transform(X)\<close> returns: a numpy array has one dtype for all
  its entries. Only the dtype and the number of columns matter to the schema.
\<close>

record ndarray =
  arr_dtype :: string
  arr_ncols :: nat

text \<open>
  \<^verbatim>\<open>pd.DataFrame(X_imputed, columns=X.columns)\<close>: every column takes the array's dtype; a
  number of names different from the number of columns raises \<^verbatim>\<open>ValueError\<close>. The result
  is the listing \<^verbatim>\<open>X.dtypes.items()\<close> of the new frame.
\<close>

definition DataFrame :: "ndarray \<Rightarrow> string list \<Rightarrow> exn_class + (string \<times> string) list" where
  "DataFrame a columns =
     (if arr_ncols a \<noteq> length columns
      then Inl ValueError
      else Inr (map (\<lambda>c. (c, arr_dtype a)) columns))"

section \<open>The module state and its start\<close>

text \<open>
  The globals of predict.py that the handlers read. \<^verbatim>\<open>None\<close> in \<open>X_columns\<close> or in
  \<open>model\<close> stands for a name that is not bound: \<^verbatim>\<open>health\<close> tests \<^verbatim>\<open>'model' in globals()\<close>
  and guards \<^verbatim>\<open>len(X.columns)\<close> with \<^verbatim>\<open>try\<close>. \<open>InputData\<close> lists the fields of the
  request model that \<^verbatim>\<open>create_model\<close> made: every field is required.
\<close>

record globals =
  X_columns :: "string list option"
  feature_types :: "(string \<times> py_type) list"
  InputData :: "(string \<times> py_type) list"
  model :: "model_obj option"

text \<open>
  What the start reads from outside: \<^verbatim>\<open>dataset.get_data\<close> (the columns of the dataset with
  their dtypes), the imputer's result on it, \<^verbatim>\<open>joblib.load(model_filename)\<close>, and the field
  names that pydantic refuses because they clash with a member of \<^verbatim>\<open>BaseModel\<close> (such as
  \<^verbatim>\<open>model_dump\<close>).
\<close>

record environment =
  get_data :: "exc + (string \<times> string) list"
  fit_transform :: "exc + ndarray"
  joblib_load :: "exc + model_obj"
  refused_name :: "string \<Rightarrow> bool"

text \<open>
  \<^verbatim>\<open>create_model("InputData", **dynamic_fields)\<close>, line 37. A name that clashes with a member
  of \<^verbatim>\<open>BaseModel\<close> raises \<^verbatim>\<open>NameError\<close>. A name that starts with an underscore is no valid
  field name: pydantic makes it a private attribute, and the model has no field of that name.
  Every other entry becomes a required field, in the order of the dictionary.
\<close>

definition is_valid_field_name :: "string \<Rightarrow> bool" where
  "is_valid_field_name name = (case name of [] \<Rightarrow> True | c # _ \<Rightarrow> c \<noteq> CHR ''_'')"

definition create_model ::
  "(string \<Rightarrow> bool) \<Rightarrow> (string \<times> py_type) list \<Rightarrow> exn_class + (string \<times> py_type) list" where
  "create_model refused dynamic_fields =
     (if list_ex (\<lambda>(name, ty). refused name) dynamic_fields
      then Inl NameError
      else Inr (filter (\<lambda>(name, ty). is_valid_field_name name) dynamic_fields))"

definition model_filename :: string where
  "model_filename = ''xgboost_model.joblib''"

text \<open>Lines 44 to 50: the \<^verbatim>\<open>try\<close> around \<^verbatim>\<open>joblib.load\<close> and its two \<^verbatim>\<open>except\<close> clauses.\<close>

definition load_model :: "exc + model_obj \<Rightarrow> failure + model_obj" where
  "load_model r =
     (case r of
        Inr m \<Rightarrow> Inr m
      | Inl (c, msg) \<Rightarrow>
          if c = FileNotFoundError
          then Inl (HTTPException 500
                 (''Model file '' @ [CHR 0x27] @ model_filename @ [CHR 0x27] @ '' not found.''))
          else Inl (HTTPException 500 (''Error loading model: '' @ msg)))"

text \<open>
  Lines 24 to 37: the schema part of the start, in the order of the module. It yields
  \<^verbatim>\<open>X.columns\<close>, \<^verbatim>\<open>feature_types\<close> and the fields of \<^verbatim>\<open>InputData\<close>.
\<close>

definition load_schema ::
  "environment \<Rightarrow>
   exn_class + (string list \<times> (string \<times> py_type) list \<times> (string \<times> py_type) list)" where
  "load_schema env =
     (case get_data env of
        Inl (c, msg) \<Rightarrow> Inl c
      | Inr X0 \<Rightarrow>
          (case fit_transform env of
             Inl (c, msg) \<Rightarrow> Inl c
           | Inr X_imputed \<Rightarrow>
               (case DataFrame X_imputed (map fst X0) of
                  Inl c \<Rightarrow> Inl c
                | Inr X \<Rightarrow>
                    (let ftypes = build_feature_types X;
                         dynamic_fields = ftypes
                     in case create_model (refused_name env) dynamic_fields of
                          Inl c \<Rightarrow> Inl c
                        | Inr fs \<Rightarrow> Inr (map fst X, ftypes, fs)))))"

text \<open>The whole module body: the schema part, then the model.\<close>

definition startup :: "environment \<Rightarrow> failure + globals" where
  "startup env =
     (case load_schema env of
        Inl c \<Rightarrow> Inl (Raised c)
      | Inr (columns, ftypes, fs) \<Rightarrow>
          (case load_model (joblib_load env) of
             Inl f \<Rightarrow> Inl f
           | Inr m \<Rightarrow>
               Inr \<lparr>X_columns = Some columns, feature_types = ftypes,
                    InputData = fs, model = Some m\<rparr>))"

section \<open>Request validation\<close>

text \<open>
  The body of a request is a JSON object, given as its (key, value) pairs in the order they
  arrived. Parsing it into a \<^verbatim>\<open>dict\<close> keeps, for a repeated key, the last value.
\<close>

type_synonym body = "(string \<times> pyval) list"

definition body_get :: "body \<Rightarrow> string \<Rightarrow> pyval option" where
  "body_get b k = map_of (rev b) k"

text \<open>
  The validator of one field is pydantic's: from the declared type and the received value to
  the coerced value, or \<open>None\<close> when the value is refused. It is a parameter of the model.
\<close>

type_synonym validator = "py_type \<Rightarrow> pyval \<Rightarrow> pyval option"

datatype field_error = Missing string | Invalid string

text \<open>
  Validation goes through the declared fields, looks each one up in the body by name and
  collects an error per field that is missing or refused; keys of the body that are no field
  are never looked at. The second component is \<^verbatim>\<open>data.model_dump()\<close>, in field order.
\<close>

fun validate_fields ::
  "validator \<Rightarrow> (string \<times> py_type) list \<Rightarrow> body \<Rightarrow> field_error list \<times> frame" where
  "validate_fields conv [] b = ([], [])"
| "validate_fields conv ((name, ty) # rest) b =
     (let (errs, vals) = validate_fields conv rest b in
      case body_get b name of
        None \<Rightarrow> (Missing name # errs, vals)
      | Some v \<Rightarrow>
          (case conv ty v of
             None \<Rightarrow> (Invalid name # errs, vals)
           | Some v' \<Rightarrow> (errs, (name, v') # vals)))"

definition model_validate ::
  "validator \<Rightarrow> (string \<times> py_type) list \<Rightarrow> body \<Rightarrow> field_error list + frame" where
  "model_validate conv fs b =
     (case validate_fields conv fs b of
        (errs, vals) \<Rightarrow> if errs = [] then Inr vals else Inl errs)"

text \<open>
  One validator, the instance used in the concrete scenarios. It is stricter than
  pydantic's: a float field takes a float as it is and an integer converted, an integer
  field takes an integer as it is, and everything else is refused (pydantic also takes
  numeric strings, booleans and floats without fractional part). Where it accepts a JSON
  number of the scenarios, it returns what pydantic returns. The theorems below that speak
  of every validator do not depend on it.
\<close>

fun number_validator :: validator where
  "number_validator PyFloat (PFloat x) = Some (PFloat x)"
| "number_validator PyFloat (PInt i) = Some (PFloat (of_int i))"
| "number_validator PyInt (PInt i) = Some (PInt i)"
| "number_validator _ _ = None"

section \<open>The handlers\<close>

datatype response =
    OK pyval
  | UnprocessableEntity "field_error list"
  | InternalServerError exn_class

definition prediction_mapping :: "(int \<times> string) list" where
  "prediction_mapping = [(0, ''stock_value_decrease''), (1, ''stock_value_increase'')]"

text \<open>\<^verbatim>\<open>input_df[X.columns]\<close>: the named columns in the order asked, \<^verbatim>\<open>KeyError\<close> on a
  name the frame does not have.\<close>

fun select_columns :: "frame \<Rightarrow> string list \<Rightarrow> exn_class + frame" where
  "select_columns df [] = Inr []"
| "select_columns df (c # cs) =
     (case map_of df c of
        None \<Rightarrow> Inl KeyError
      | Some v \<Rightarrow>
          (case select_columns df cs of
             Inl e \<Rightarrow> Inl e
           | Inr row \<Rightarrow> Inr ((c, v) # row)))"

text \<open>
  \<^verbatim>\<open>predict\<close>, lines 58 to 74. The framework validates the body into \<^verbatim>\<open>data\<close> before the
  function runs and answers 422 itself when validation fails; an exception that escapes the
  function becomes the answer 500, kept here with the class of the exception. The second
  component of the result lists the frames given to \<^verbatim>\<open>model.predict\<close> while the request was
  handled. The definition describes request models whose fields are \<^verbatim>\<open>float\<close> and \<^verbatim>\<open>int\<close>
  fields; what the framework does with a field whose type is a label is not described.
\<close>

definition predict :: "validator \<Rightarrow> globals \<Rightarrow> body \<Rightarrow> response \<times> frame list" where
  "predict conv g b =
     (case model_validate conv (InputData g) b of
        Inl errs \<Rightarrow> (UnprocessableEntity errs, [])
      | Inr data \<Rightarrow>
          (let input_df = data in
           case X_columns g of
             None \<Rightarrow> (InternalServerError NameError, [])
           | Some columns \<Rightarrow>
               (case select_columns input_df columns of
                  Inl c \<Rightarrow> (InternalServerError c, [])
                | Inr input_df' \<Rightarrow>
                    (case model g of
                       None \<Rightarrow> (InternalServerError NameError, [])
                     | Some PyNoneObj \<Rightarrow> (InternalServerError AttributeError, [])
                     | Some (Pipeline model_predict) \<Rightarrow>
                         (case model_predict input_df' of
                            Inl (c, msg) \<Rightarrow> (InternalServerError c, [input_df'])
                          | Inr raw_prediction \<Rightarrow>
                              (case raw_prediction of
                                 [] \<Rightarrow> (InternalServerError IndexError, [input_df'])
                               | code # _ \<Rightarrow>
                                   (let predicted_label =
                                          dict_get prediction_mapping code ''Unknown''
                                    in (OK (PDict [(''prediction'', PStr predicted_label)]),
                                        [input_df']))))))))"

text \<open>\<^verbatim>\<open>len(X.columns)\<close>, which raises when \<^verbatim>\<open>X\<close> is not there.\<close>

definition len_X_columns :: "globals \<Rightarrow> exn_class + nat" where
  "len_X_columns g =
     (case X_columns g of None \<Rightarrow> Inl NameError | Some columns \<Rightarrow> Inr (length columns))"

text \<open>\<^verbatim>\<open>health\<close>, lines 77 to 85.\<close>

definition health :: "globals \<Rightarrow> response" where
  "health g =
     (let model_present = (case model g of None \<Rightarrow> False | Some m \<Rightarrow> m \<noteq> PyNoneObj);
          n_features = (case len_X_columns g of Inl e \<Rightarrow> PNone | Inr n \<Rightarrow> PInt (int n))
      in OK (PDict [(''status'', PStr ''ok''), (''model_loaded'', PBool model_present),
                    (''n_features'', n_features)]))"

section \<open>The process\<close>

datatype request = PostPredict body | GetHealth

definition handle :: "validator \<Rightarrow> globals \<Rightarrow> request \<Rightarrow> response" where
  "handle conv g req =
     (case req of PostPredict b \<Rightarrow> fst (predict conv g b) | GetHealth \<Rightarrow> health g)"

text \<open>
  \<^verbatim>\<open>uvicorn predict:app\<close> imports the module and serves only once the import has returned:
  a failed start ends the process with its failure and answers no request.
\<close>

definition run_service ::
  "validator \<Rightarrow> environment \<Rightarrow> request list \<Rightarrow> failure option \<times> response list" where
  "run_service conv env reqs =
     (case startup env of
        Inl f \<Rightarrow> (Some f, [])
      | Inr g \<Rightarrow> (None, map (handle conv g) reqs))"

section \<open>Auxiliary facts\<close>


lemma dict_set_fresh: "k \<notin> set (map fst d) \<Longrightarrow> dict_set d k v = d @ [(k, v)]"
  by (induction d) auto

lemma dict_set_keys: "set (map fst (dict_set d k v)) = insert k (set (map fst d))"
  by (induction d k v rule: dict_set.induct) (simp_all add: insert_commute)

lemma loop_keys:
  "set (map fst (feature_types_loop l acc)) = set (map fst acc) \<union> set (map fst l)"
proof (induction l acc rule: feature_types_loop.induct)
  case (1 acc)
  then show ?case by simp
next
  case (2 column dtype rest acc)
  then show ?case by (simp add: dict_set_keys del: set_map)
qed

lemma loop_distinct:
  "distinct (map fst acc @ map fst l) \<Longrightarrow>
   feature_types_loop l acc = acc @ map (\<lambda>(c, d). (c, dict_get dtype_mapping d (Label d))) l"
proof (induction l acc rule: feature_types_loop.induct)
  case (1 acc)
  then show ?case by simp
next
  case (2 column dtype rest acc)
  then show ?case by (simp add: dict_set_fresh)
qed

lemma kind_cases:
  "dict_get dtype_mapping d (Label d) =
     (if d = ''float64'' then PyFloat else if d = ''int64'' \<or> d = ''uint8'' then PyInt else Label d)"
  by (simp add: dict_get_def dtype_mapping_def)

lemma validate_fields_cong:
  "(\<And>f. f \<in> set (map fst fs) \<Longrightarrow> body_get b1 f = body_get b2 f) \<Longrightarrow>
   validate_fields conv fs b1 = validate_fields conv fs b2"
proof (induction fs)
  case Nil
  then show ?case by simp
next
  case (Cons a fs)
  obtain name ty where a: "a = (name, ty)" by (cases a)
  have "validate_fields conv fs b1 = validate_fields conv fs b2"
    using Cons by simp
  moreover have "body_get b1 name = body_get b2 name"
    using Cons.prems a by simp
  ultimately show ?case by (simp add: a)
qed

lemma validate_fields_missing:
  "Missing f \<in> set (fst (validate_fields conv fs b)) \<longleftrightarrow>
   f \<in> set (map fst fs) \<and> body_get b f = None"
proof (induction fs)
  case Nil
  then show ?case by simp
next
  case (Cons a fs)
  obtain name ty where a: "a = (name, ty)" by (cases a)
  show ?case using Cons
    by (auto simp: a split: prod.splits option.splits)
qed

lemma validate_fields_no_errors:
  "fst (validate_fields conv fs b) = [] \<longleftrightarrow>
   (\<forall>(f, ty) \<in> set fs. \<exists>v v'. body_get b f = Some v \<and> conv ty v = Some v')"
proof (induction fs)
  case Nil
  then show ?case by simp
next
  case (Cons a fs)
  obtain name ty where a: "a = (name, ty)" by (cases a)
  show ?case using Cons
    by (auto simp: a split: prod.splits option.splits)
qed

lemma validate_fields_names:
  "fst (validate_fields conv fs b) = [] \<Longrightarrow>
   map fst (snd (validate_fields conv fs b)) = map fst fs"
proof (induction fs)
  case Nil
  then show ?case by simp
next
  case (Cons a fs)
  obtain name ty where a: "a = (name, ty)" by (cases a)
  show ?case using Cons
    by (auto simp: a split: prod.splits option.splits)
qed

lemma select_columns_total:
  "set columns \<subseteq> set (map fst df) \<Longrightarrow>
   \<exists>row. select_columns df columns = Inr row"
proof (induction columns)
  case Nil
  then show ?case by simp
next
  case (Cons c cs)
  then obtain row where "select_columns df cs = Inr row" by auto
  moreover obtain v where "map_of df c = Some v"
    using Cons.prems by (cases "map_of df c") (auto simp: map_of_eq_None_iff)
  ultimately show ?case by simp
qed

lemma select_columns_row:
  "select_columns df columns = Inr row \<Longrightarrow>
   map fst row = columns \<and> map (\<lambda>(c, v). Some v) row = map (map_of df) columns"
proof (induction columns arbitrary: row)
  case Nil
  then show ?case by simp
next
  case (Cons c cs)
  then show ?case
    by (auto split: option.splits sum.splits)
qed


lemma validate_fields_origin:
  "(c, v) \<in> set (snd (validate_fields conv fs b)) \<Longrightarrow>
   \<exists>ty w. (c, ty) \<in> set fs \<and> body_get b c = Some w \<and> conv ty w = Some v"
proof (induction fs)
  case Nil
  then show ?case by simp
next
  case (Cons a fs)
  obtain name ty where a: "a = (name, ty)" by (cases a)
  show ?case using Cons
    by (auto simp: a split: prod.splits option.splits)
qed

lemma model_validate_Inr:
  "model_validate conv fs b = Inr data \<Longrightarrow>
   fst (validate_fields conv fs b) = [] \<and> data = snd (validate_fields conv fs b)"
  by (auto simp: model_validate_def split: prod.splits if_splits)

lemma model_validate_Inl:
  "model_validate conv fs b = Inl errs \<Longrightarrow>
   errs = fst (validate_fields conv fs b) \<and> errs \<noteq> []"
  by (auto simp: model_validate_def split: prod.splits if_splits)

lemma predict_calls:
  assumes "model_validate conv (InputData g) b = Inr data"
    and "X_columns g = Some columns"
    and "select_columns data columns = Inr row"
    and "model g = Some (Pipeline p)"
  shows "snd (predict conv g b) = [row]"
  using assms by (simp add: predict_def split: sum.splits list.splits prod.splits)



lemma map_of_filter_key:
  "k \<in> S \<Longrightarrow> map_of (filter (\<lambda>(k, v). k \<in> S) xs) k = map_of xs k"
  by (induction xs) auto

lemma body_get_filter:
  "f \<in> S \<Longrightarrow> body_get (filter (\<lambda>(k, v). k \<in> S) b) f = body_get b f"
  by (simp add: body_get_def rev_filter map_of_filter_key)

lemma predict_accepts:
  assumes "fst (validate_fields conv (InputData g) b) = []"
  shows "fst (predict conv g b) \<noteq> UnprocessableEntity errs"
proof -
  obtain data where "model_validate conv (InputData g) b = Inr data"
    using assms by (cases "validate_fields conv (InputData g) b") (simp add: model_validate_def)
  then show ?thesis
    by (simp add: predict_def split: option.splits sum.splits prod.splits model_obj.splits
        list.splits)
qed



lemma create_model_fields:
  "create_model refused dynamic_fields = Inr fs \<Longrightarrow>
   fs = filter (\<lambda>(name, ty). is_valid_field_name name) dynamic_fields"
  by (simp add: create_model_def split: if_splits)

lemma startup_schema:
  assumes "startup env = Inr g" and "get_data env = Inr X0" and "fit_transform env = Inr a"
  shows "X_columns g = Some (map fst X0)"
    and "feature_types g = build_feature_types (map (\<lambda>c. (c, arr_dtype a)) (map fst X0))"
    and "InputData g = filter (\<lambda>(name, ty). is_valid_field_name name) (feature_types g)"
proof -
  let ?X = "map (\<lambda>c. (c, arr_dtype a)) (map fst X0)"
  have df: "DataFrame a (map fst X0) = Inr ?X"
    using assms
    by (auto simp: startup_def load_schema_def DataFrame_def split: sum.splits if_splits)
  obtain fs where cm: "create_model (refused_name env) (build_feature_types ?X) = Inr fs"
    using assms df by (auto simp: startup_def load_schema_def Let_def split: sum.splits)
  have ls: "load_schema env = Inr (map fst ?X, build_feature_types ?X, fs)"
    using assms(2,3) df cm by (simp add: load_schema_def)
  have g: "X_columns g = Some (map fst ?X)" "feature_types g = build_feature_types ?X"
    "InputData g = fs"
    using assms(1) ls by (auto simp: startup_def split: sum.splits)
  show "X_columns g = Some (map fst X0)" using g(1) by (simp add: comp_def)
  show "feature_types g = build_feature_types ?X" using g(2) .
  show "InputData g = filter (\<lambda>(name, ty). is_valid_field_name name) (feature_types g)"
    using create_model_fields [OF cm] g by simp
qed


lemma feature_types_columns:
  "set (map fst (build_feature_types (map (\<lambda>c. (c, d)) cs))) = set cs"
  using loop_keys [of "map (\<lambda>c. (c, d)) cs" "[]"]
  by (simp add: build_feature_types_def comp_def)

lemma startup_columns_are_fields:
  assumes "startup env = Inr g" and "get_data env = Inr X0" and "fit_transform env = Inr a"
    and "\<forall>c \<in> set (map fst X0). is_valid_field_name c"
  shows "X_columns g = Some (map fst X0)"
    and "set (map fst X0) \<subseteq> set (map fst (InputData g))"
proof -
  note st = startup_schema [OF assms(1-3)]
  show "X_columns g = Some (map fst X0)" using st(1) .
  have keys: "set (map fst (feature_types g)) = set (map fst X0)"
    unfolding st(2) feature_types_columns ..
  then have "\<forall>x \<in> set (feature_types g). (\<lambda>(name, ty). is_valid_field_name name) x"
    using assms(4) by force
  then have "InputData g = feature_types g"
    unfolding st(3) by (simp add: filter_id_conv)
  then show "set (map fst X0) \<subseteq> set (map fst (InputData g))"
    using keys by simp
qed

section \<open>The claims\<close>

subsection \<open>The schema builder\<close>

text \<open>
  Claim C8, as amended. On a listing with distinct column names the schema builder returns
  the listing's columns in the listing's order, each with the type of its dtype name:
  \<^verbatim>\<open>float\<close> for exactly \<^verbatim>\<open>'float64'\<close>, \<^verbatim>\<open>int\<close> for exactly \<^verbatim>\<open>'int64'\<close> and \<^verbatim>\<open>'uint8'\<close>, and for
  every other dtype name, other float and integer widths included, the name itself as an
  opaque label. The result is a function of the listing alone, so two runs on one listing
  give one schema.
\<close>

theorem build_feature_types_listing:
  "distinct (map fst l) \<Longrightarrow>
   build_feature_types l =
     map (\<lambda>(c, d). (c, if d = ''float64'' then PyFloat
                        else if d = ''int64'' \<or> d = ''uint8'' then PyInt else Label d)) l"
  unfolding build_feature_types_def using loop_distinct[of "[]" l] by (simp add: kind_cases)

theorem build_feature_types_listing_witness:
  "distinct (map fst [(''a'', ''float64''), (''b'', ''uint8''), (''c'', ''int64''),
                      (''d'', ''category'')]) \<and>
   build_feature_types [(''a'', ''float64''), (''b'', ''uint8''), (''c'', ''int64''),
                        (''d'', ''category'')]
     = [(''a'', PyFloat), (''b'', PyInt), (''c'', PyInt), (''d'', Label ''category'')]"
  using build_feature_types_listing
    [of "[(''a'', ''float64''), (''b'', ''uint8''), (''c'', ''int64''), (''d'', ''category'')]"]
  by simp

text \<open>
  Claim C8 as stated fails: \<^verbatim>\<open>'float32'\<close> is a float dtype and \<^verbatim>\<open>'int32'\<close> an integer dtype,
  and neither column gets the Float or the Integer kind; each keeps its dtype name.
\<close>

theorem float_family_counterexample:
  "build_feature_types [(''ratio'', ''float32''), (''count'', ''int32'')]
     = [(''ratio'', Label ''float32''), (''count'', Label ''int32'')] \<and>
   build_feature_types [(''ratio'', ''float32''), (''count'', ''int32'')]
     \<noteq> [(''ratio'', PyFloat), (''count'', PyInt)]"
  by (simp add: build_feature_types_def dict_get_def dtype_mapping_def)

subsection \<open>Alignment\<close>

text \<open>
  Claim C1. When the request validates into the record \<open>data\<close> and the state is
  consistent (every training column is a field of the request model) with a pipeline
  loaded, exactly one frame is given to the model: its columns are \<^verbatim>\<open>X.columns\<close> in that
  order, each value is the record's value of that column, and that value is the validated
  value of the body's entry of that name, wherever the entry stood in the body.
\<close>

theorem predict_row_in_FeatureSpec_order:
  assumes "model_validate conv (InputData g) b = Inr data"
    and "X_columns g = Some columns"
    and "set columns \<subseteq> set (map fst (InputData g))"
    and "model g = Some (Pipeline p)"
  shows "\<exists>row. snd (predict conv g b) = [row] \<and> map fst row = columns \<and>
           map (\<lambda>(c, v). Some v) row = map (map_of data) columns \<and>
           (\<forall>(c, v) \<in> set row. \<exists>ty w. (c, ty) \<in> set (InputData g) \<and>
                body_get b c = Some w \<and> conv ty w = Some v)"
proof -
  have ok: "fst (validate_fields conv (InputData g) b) = []"
    and data: "data = snd (validate_fields conv (InputData g) b)"
    using model_validate_Inr [OF assms(1)] by simp_all
  have names: "map fst data = map fst (InputData g)"
    using validate_fields_names [OF ok] data by simp
  then have "set columns \<subseteq> set (map fst data)"
    using assms(3) by simp
  then obtain row where row: "select_columns data columns = Inr row"
    using select_columns_total by blast
  have calls: "snd (predict conv g b) = [row]"
    using predict_calls [OF assms(1) assms(2) row assms(4)] .
  have shape: "map fst row = columns"
    and vals: "map (\<lambda>(c, v). Some v) row = map (map_of data) columns"
    using select_columns_row [OF row] by simp_all
  have "\<exists>ty w. (c, ty) \<in> set (InputData g) \<and> body_get b c = Some w \<and> conv ty w = Some v"
    if cv: "(c, v) \<in> set row" for c v
  proof -
    obtain i where i: "i < length row" "row ! i = (c, v)"
      using cv by (auto simp: in_set_conv_nth)
    have "length columns = length row" using shape by (metis length_map)
    have "map (\<lambda>(c, v). Some v) row ! i = map (map_of data) columns ! i"
      using vals by simp
    moreover have "columns ! i = c"
      using i shape by (metis fst_conv nth_map)
    ultimately have "map_of data c = Some v"
      using i \<open>length columns = length row\<close> by simp
    then have "(c, v) \<in> set data" by (rule map_of_SomeD)
    then show ?thesis using validate_fields_origin data by blast
  qed
  then show ?thesis using calls shape vals by blast
qed

theorem predict_row_in_FeatureSpec_order_witness:
  "model_validate number_validator
     [(''revenue'', PyFloat), (''debt_ratio'', PyFloat), (''employees'', PyInt)]
     [(''employees'', PInt 50), (''revenue'', PFloat 12.5), (''debt_ratio'', PFloat 0.3)]
     = Inr [(''revenue'', PFloat 12.5), (''debt_ratio'', PFloat 0.3), (''employees'', PInt 50)] \<and>
   snd (predict number_validator
     \<lparr>X_columns = Some [''revenue'', ''debt_ratio'', ''employees''],
      feature_types = [(''revenue'', PyFloat), (''debt_ratio'', PyFloat), (''employees'', PyInt)],
      InputData = [(''revenue'', PyFloat), (''debt_ratio'', PyFloat), (''employees'', PyInt)],
      model = Some (Pipeline (\<lambda>df. Inr [1]))\<rparr>
     [(''employees'', PInt 50), (''revenue'', PFloat 12.5), (''debt_ratio'', PFloat 0.3)])
     = [[(''revenue'', PFloat 12.5), (''debt_ratio'', PFloat 0.3), (''employees'', PInt 50)]]"
proof -
  let ?fs = "[(''revenue'', PyFloat), (''debt_ratio'', PyFloat), (''employees'', PyInt)]"
  let ?b = "[(''employees'', PInt 50), (''revenue'', PFloat 12.5), (''debt_ratio'', PFloat 0.3)]"
  let ?data = "[(''revenue'', PFloat 12.5), (''debt_ratio'', PFloat 0.3), (''employees'', PInt 50)]"
  let ?g = "\<lparr>X_columns = Some [''revenue'', ''debt_ratio'', ''employees''],
      feature_types = ?fs, InputData = ?fs, model = Some (Pipeline (\<lambda>df. Inr [1]))\<rparr>"
  have v: "model_validate number_validator (InputData ?g) ?b = Inr ?data"
    by (simp add: model_validate_def body_get_def)
  have x: "X_columns ?g = Some [''revenue'', ''debt_ratio'', ''employees'']" by simp
  have s: "set [''revenue'', ''debt_ratio'', ''employees''] \<subseteq> set (map fst (InputData ?g))"
    by simp
  have m: "model ?g = Some (Pipeline (\<lambda>df. Inr [1]))" by simp
  obtain row where row: "snd (predict number_validator ?g ?b) = [row]"
      "map fst row = [''revenue'', ''debt_ratio'', ''employees'']"
      "map (\<lambda>(c, v). Some v) row = map (map_of ?data) [''revenue'', ''debt_ratio'', ''employees'']"
    using predict_row_in_FeatureSpec_order [OF v x s m] by (elim exE conjE)
  have "row = ?data"
    using row(2,3) by (auto simp: map_eq_Cons_conv)
  then show ?thesis using v row(1) by simp
qed

text \<open>
  Claim C2. Two bodies that hold the same (field, value) pairs, each field once, in two
  different orders get the same answer, and the model is given the same frame.
\<close>

theorem predict_key_order_invariant:
  assumes "distinct (map fst b1)" and "distinct (map fst b2)" and "set b1 = set b2"
  shows "predict conv g b1 = predict conv g b2"
proof -
  have "map_of (rev b1) = map_of (rev b2)"
    using assms by (intro map_of_inject_set [THEN iffD2]) (simp_all add: rev_map [symmetric])
  then have "body_get b1 = body_get b2"
    by (simp add: body_get_def fun_eq_iff)
  then have "validate_fields conv (InputData g) b1 = validate_fields conv (InputData g) b2"
    by (intro validate_fields_cong) simp
  then show ?thesis by (simp add: predict_def model_validate_def)
qed

theorem predict_key_order_invariant_witness:
  "distinct (map fst [(''employees'', PInt 50), (''revenue'', PFloat 12.5), (''debt_ratio'', PFloat 0.3)]) \<and>
   distinct (map fst [(''revenue'', PFloat 12.5), (''debt_ratio'', PFloat 0.3), (''employees'', PInt 50)]) \<and>
   set [(''employees'', PInt 50), (''revenue'', PFloat 12.5), (''debt_ratio'', PFloat 0.3)]
     = set [(''revenue'', PFloat 12.5), (''debt_ratio'', PFloat 0.3), (''employees'', PInt 50)] \<and>
   predict number_validator
     \<lparr>X_columns = Some [''revenue'', ''debt_ratio'', ''employees''],
      feature_types = [(''revenue'', PyFloat), (''debt_ratio'', PyFloat), (''employees'', PyInt)],
      InputData = [(''revenue'', PyFloat), (''debt_ratio'', PyFloat), (''employees'', PyInt)],
      model = Some (Pipeline (\<lambda>df. Inr [0]))\<rparr>
     [(''employees'', PInt 50), (''revenue'', PFloat 12.5), (''debt_ratio'', PFloat 0.3)]
   = predict number_validator
     \<lparr>X_columns = Some [''revenue'', ''debt_ratio'', ''employees''],
      feature_types = [(''revenue'', PyFloat), (''debt_ratio'', PyFloat), (''employees'', PyInt)],
      InputData = [(''revenue'', PyFloat), (''debt_ratio'', PyFloat), (''employees'', PyInt)],
      model = Some (Pipeline (\<lambda>df. Inr [0]))\<rparr>
     [(''revenue'', PFloat 12.5), (''debt_ratio'', PFloat 0.3), (''employees'', PInt 50)]"
proof -
  let ?b1 = "[(''employees'', PInt 50), (''revenue'', PFloat 12.5), (''debt_ratio'', PFloat 0.3)]"
  let ?b2 = "[(''revenue'', PFloat 12.5), (''debt_ratio'', PFloat 0.3), (''employees'', PInt 50)]"
  have d1: "distinct (map fst ?b1)" by simp
  have d2: "distinct (map fst ?b2)" by simp
  have e: "set ?b1 = set ?b2" by (simp add: insert_commute)
  show ?thesis
    using d1 d2 e predict_key_order_invariant [OF d1 d2 e] by blast
qed

subsection \<open>Rejected requests\<close>

text \<open>
  Claim C3. When a field of the request model has no entry in the body, the answer is the
  validation error 422, its error list names the field as missing, and no frame is given
  to the model.
\<close>

theorem predict_missing_field_rejected:
  assumes "f \<in> set (map fst (InputData g))" and "f \<notin> set (map fst b)"
  shows "\<exists>errs. predict conv g b = (UnprocessableEntity errs, []) \<and> Missing f \<in> set errs"
proof -
  have "body_get b f = None"
    using assms(2) by (simp add: body_get_def map_of_eq_None_iff)
  then have m: "Missing f \<in> set (fst (validate_fields conv (InputData g) b))"
    using assms(1) validate_fields_missing by blast
  then have "fst (validate_fields conv (InputData g) b) \<noteq> []" by auto
  then have "predict conv g b =
      (UnprocessableEntity (fst (validate_fields conv (InputData g) b)), [])"
    by (cases "validate_fields conv (InputData g) b") (simp add: predict_def model_validate_def)
  then show ?thesis using m by blast
qed

theorem predict_missing_field_rejected_witness:
  "''debt_ratio'' \<in> set (map fst (InputData
     \<lparr>X_columns = Some [''revenue'', ''debt_ratio'', ''employees''],
      feature_types = [(''revenue'', PyFloat), (''debt_ratio'', PyFloat), (''employees'', PyInt)],
      InputData = [(''revenue'', PyFloat), (''debt_ratio'', PyFloat), (''employees'', PyInt)],
      model = Some (Pipeline (\<lambda>df. Inr [0]))\<rparr>)) \<and>
   ''debt_ratio'' \<notin> set (map fst [(''employees'', PInt 50), (''revenue'', PFloat 12.5)]) \<and>
   predict number_validator
     \<lparr>X_columns = Some [''revenue'', ''debt_ratio'', ''employees''],
      feature_types = [(''revenue'', PyFloat), (''debt_ratio'', PyFloat), (''employees'', PyInt)],
      InputData = [(''revenue'', PyFloat), (''debt_ratio'', PyFloat), (''employees'', PyInt)],
      model = Some (Pipeline (\<lambda>df. Inr [0]))\<rparr>
     [(''employees'', PInt 50), (''revenue'', PFloat 12.5)]
   = (UnprocessableEntity [Missing ''debt_ratio''], [])"
proof -
  let ?g = "\<lparr>X_columns = Some [''revenue'', ''debt_ratio'', ''employees''],
      feature_types = [(''revenue'', PyFloat), (''debt_ratio'', PyFloat), (''employees'', PyInt)],
      InputData = [(''revenue'', PyFloat), (''debt_ratio'', PyFloat), (''employees'', PyInt)],
      model = Some (Pipeline (\<lambda>df. Inr [0]))\<rparr>"
  let ?b = "[(''employees'', PInt 50), (''revenue'', PFloat 12.5)]"
  have f: "''debt_ratio'' \<in> set (map fst (InputData ?g))" by simp
  have n: "''debt_ratio'' \<notin> set (map fst ?b)" by simp
  obtain errs where "predict number_validator ?g ?b = (UnprocessableEntity errs, [])"
    using predict_missing_field_rejected [OF f n, where conv = number_validator] by blast
  moreover have "fst (validate_fields number_validator (InputData ?g) ?b) = [Missing ''debt_ratio'']"
    by (simp add: body_get_def)
  ultimately show ?thesis
    using f n by (simp add: predict_def model_validate_def split: prod.splits)
qed

subsection \<open>Labels\<close>

text \<open>
  Claim C4. The first class code of the array the model returns is resolved through
  \<open>prediction_mapping\<close>: 0 to \<^verbatim>\<open>stock_value_decrease\<close>, 1 to \<^verbatim>\<open>stock_value_increase\<close>, and
  every other code to \<^verbatim>\<open>Unknown\<close>, in each case as the successful answer
  \<^verbatim>\<open>{"prediction": label}\<close>.
\<close>

theorem predict_resolves_label:
  assumes "model_validate conv (InputData g) b = Inr data"
    and "X_columns g = Some columns"
    and "select_columns data columns = Inr row"
    and "model g = Some (Pipeline p)"
    and "p row = Inr (code # rest)"
  shows "fst (predict conv g b) = OK (PDict [(''prediction'', PStr
            (if code = 0 then ''stock_value_decrease''
             else if code = 1 then ''stock_value_increase'' else ''Unknown''))])"
  using assms by (simp add: predict_def dict_get_def prediction_mapping_def)

theorem predict_resolves_label_witness:
  "model_validate number_validator
     [(''revenue'', PyFloat), (''debt_ratio'', PyFloat), (''employees'', PyInt)]
     [(''employees'', PInt 50), (''revenue'', PFloat 12.5), (''debt_ratio'', PFloat 0.3)]
     = Inr [(''revenue'', PFloat 12.5), (''debt_ratio'', PFloat 0.3), (''employees'', PInt 50)] \<and>
   select_columns
     [(''revenue'', PFloat 12.5), (''debt_ratio'', PFloat 0.3), (''employees'', PInt 50)]
     [''revenue'', ''debt_ratio'', ''employees'']
     = Inr [(''revenue'', PFloat 12.5), (''debt_ratio'', PFloat 0.3), (''employees'', PInt 50)] \<and>
   fst (predict number_validator
     \<lparr>X_columns = Some [''revenue'', ''debt_ratio'', ''employees''],
      feature_types = [(''revenue'', PyFloat), (''debt_ratio'', PyFloat), (''employees'', PyInt)],
      InputData = [(''revenue'', PyFloat), (''debt_ratio'', PyFloat), (''employees'', PyInt)],
      model = Some (Pipeline (\<lambda>df. Inr [2]))\<rparr>
     [(''employees'', PInt 50), (''revenue'', PFloat 12.5), (''debt_ratio'', PFloat 0.3)])
     = OK (PDict [(''prediction'', PStr ''Unknown'')])"
proof -
  let ?fs = "[(''revenue'', PyFloat), (''debt_ratio'', PyFloat), (''employees'', PyInt)]"
  let ?b = "[(''employees'', PInt 50), (''revenue'', PFloat 12.5), (''debt_ratio'', PFloat 0.3)]"
  let ?data = "[(''revenue'', PFloat 12.5), (''debt_ratio'', PFloat 0.3), (''employees'', PInt 50)]"
  let ?cols = "[''revenue'', ''debt_ratio'', ''employees'']"
  let ?p = "\<lambda>df::frame. Inr [2] :: exc + int list"
  let ?g = "\<lparr>X_columns = Some ?cols,
      feature_types = ?fs, InputData = ?fs, model = Some (Pipeline ?p)\<rparr>"
  have v: "model_validate number_validator (InputData ?g) ?b = Inr ?data"
    by (simp add: model_validate_def body_get_def)
  have x: "X_columns ?g = Some ?cols" by simp
  have s: "select_columns ?data ?cols = Inr ?data" by simp
  have m: "model ?g = Some (Pipeline ?p)" by simp
  have r: "?p ?data = Inr (2 # [])" by simp
  show ?thesis
    using v s predict_resolves_label [OF v x s m r] by simp
qed

subsection \<open>Valid records\<close>




subsection \<open>Health\<close>

text \<open>
  Claim C7. On every module state \<^verbatim>\<open>health\<close> answers successfully with the three entries
  \<^verbatim>\<open>status\<close>, \<^verbatim>\<open>model_loaded\<close> and \<^verbatim>\<open>n_features\<close>: the status is \<^verbatim>\<open>ok\<close>, \<^verbatim>\<open>model_loaded\<close> is true
  exactly when the name \<^verbatim>\<open>model\<close> is bound to an object other than \<^verbatim>\<open>None\<close> (false when the
  name is absent, false when it is \<^verbatim>\<open>None\<close>), and \<^verbatim>\<open>n_features\<close> is the number of training
  columns, or null when it cannot be read.
\<close>

theorem health_payload:
  "health g = OK (PDict [(''status'', PStr ''ok''),
      (''model_loaded'', PBool (case model g of Some (Pipeline p) \<Rightarrow> True | _ \<Rightarrow> False)),
      (''n_features'',
         case X_columns g of Some columns \<Rightarrow> PInt (int (length columns)) | None \<Rightarrow> PNone)]) \<and>
   health (g\<lparr>model := None\<rparr>) = OK (PDict [(''status'', PStr ''ok''),
      (''model_loaded'', PBool False),
      (''n_features'',
         case X_columns g of Some columns \<Rightarrow> PInt (int (length columns)) | None \<Rightarrow> PNone)]) \<and>
   health (g\<lparr>model := Some PyNoneObj\<rparr>) = OK (PDict [(''status'', PStr ''ok''),
      (''model_loaded'', PBool False),
      (''n_features'',
         case X_columns g of Some columns \<Rightarrow> PInt (int (length columns)) | None \<Rightarrow> PNone)])"
  by (simp add: health_def len_X_columns_def split: option.splits model_obj.splits)

subsection \<open>Unknown fields\<close>

text \<open>
  Claim C9. Keys of the body that are no field of the request model are ignored: the
  answer and the frame given to the model are those of the body with these keys removed,
  and a body that holds an accepted value for every field is not rejected, whatever else
  it holds.
\<close>

theorem predict_ignores_extra_fields:
  "predict conv g b
     = predict conv g (filter (\<lambda>(k, v). k \<in> set (map fst (InputData g))) b) \<and>
   ((\<forall>(f, ty) \<in> set (InputData g). \<exists>v v'. body_get b f = Some v \<and> conv ty v = Some v')
      \<longrightarrow> (\<forall>errs. fst (predict conv g b) \<noteq> UnprocessableEntity errs))"
proof -
  let ?b' = "filter (\<lambda>(k, v). k \<in> set (map fst (InputData g))) b"
  have "validate_fields conv (InputData g) ?b' = validate_fields conv (InputData g) b"
    by (rule validate_fields_cong) (rule body_get_filter)
  then have "predict conv g b = predict conv g ?b'"
    by (simp add: predict_def model_validate_def)
  moreover have "\<forall>errs. fst (predict conv g b) \<noteq> UnprocessableEntity errs"
    if "\<forall>(f, ty) \<in> set (InputData g). \<exists>v v'. body_get b f = Some v \<and> conv ty v = Some v'"
    using that validate_fields_no_errors predict_accepts by blast
  ultimately show ?thesis by blast
qed

theorem predict_ignores_extra_fields_witness:
  "model_validate number_validator
     [(''revenue'', PyFloat), (''debt_ratio'', PyFloat), (''employees'', PyInt)]
     [(''ticker'', PStr ''ACME''), (''employees'', PInt 50), (''revenue'', PFloat 12.5),
      (''debt_ratio'', PFloat 0.3)]
     = Inr [(''revenue'', PFloat 12.5), (''debt_ratio'', PFloat 0.3), (''employees'', PInt 50)] \<and>
   predict number_validator
     \<lparr>X_columns = Some [''revenue'', ''debt_ratio'', ''employees''],
      feature_types = [(''revenue'', PyFloat), (''debt_ratio'', PyFloat), (''employees'', PyInt)],
      InputData = [(''revenue'', PyFloat), (''debt_ratio'', PyFloat), (''employees'', PyInt)],
      model = Some (Pipeline (\<lambda>df. Inr [1]))\<rparr>
     [(''ticker'', PStr ''ACME''), (''employees'', PInt 50), (''revenue'', PFloat 12.5),
      (''debt_ratio'', PFloat 0.3)]
   = predict number_validator
     \<lparr>X_columns = Some [''revenue'', ''debt_ratio'', ''employees''],
      feature_types = [(''revenue'', PyFloat), (''debt_ratio'', PyFloat), (''employees'', PyInt)],
      InputData = [(''revenue'', PyFloat), (''debt_ratio'', PyFloat), (''employees'', PyInt)],
      model = Some (Pipeline (\<lambda>df. Inr [1]))\<rparr>
     [(''employees'', PInt 50), (''revenue'', PFloat 12.5), (''debt_ratio'', PFloat 0.3)] \<and>
   fst (predict number_validator
     \<lparr>X_columns = Some [''revenue'', ''debt_ratio'', ''employees''],
      feature_types = [(''revenue'', PyFloat), (''debt_ratio'', PyFloat), (''employees'', PyInt)],
      InputData = [(''revenue'', PyFloat), (''debt_ratio'', PyFloat), (''employees'', PyInt)],
      model = Some (Pipeline (\<lambda>df. Inr [1]))\<rparr>
     [(''ticker'', PStr ''ACME''), (''employees'', PInt 50), (''revenue'', PFloat 12.5),
      (''debt_ratio'', PFloat 0.3)])
   \<noteq> UnprocessableEntity [Missing ''ticker'']"
proof -
  let ?fs = "[(''revenue'', PyFloat), (''debt_ratio'', PyFloat), (''employees'', PyInt)]"
  let ?g = "\<lparr>X_columns = Some [''revenue'', ''debt_ratio'', ''employees''],
      feature_types = ?fs, InputData = ?fs, model = Some (Pipeline (\<lambda>df. Inr [1]))\<rparr>"
  let ?b = "[(''ticker'', PStr ''ACME''), (''employees'', PInt 50), (''revenue'', PFloat 12.5),
      (''debt_ratio'', PFloat 0.3)]"
  let ?b' = "[(''employees'', PInt 50), (''revenue'', PFloat 12.5), (''debt_ratio'', PFloat 0.3)]"
  have ig: "InputData ?g = ?fs" by simp
  have val: "\<forall>(f, ty) \<in> set ?fs.
      \<exists>v v'. body_get ?b f = Some v \<and> number_validator ty v = Some v'"
    by (simp add: body_get_def)
  have strip: "filter (\<lambda>(k, v). k \<in> set (map fst ?fs)) ?b = ?b'"
    by simp
  have "predict number_validator ?g ?b
      = predict number_validator ?g (filter (\<lambda>(k, v). k \<in> set (map fst ?fs)) ?b)"
    and n: "\<forall>errs. fst (predict number_validator ?g ?b) \<noteq> UnprocessableEntity errs"
    using val predict_ignores_extra_fields [of number_validator ?g ?b] unfolding ig
    by blast+
  then have "predict number_validator ?g ?b = predict number_validator ?g ?b'"
    unfolding strip by blast
  moreover have "model_validate number_validator ?fs ?b
      = Inr [(''revenue'', PFloat 12.5), (''debt_ratio'', PFloat 0.3), (''employees'', PInt 50)]"
    by (simp add: model_validate_def body_get_def)
  ultimately show ?thesis using n by blast
qed

subsection \<open>Start of the service\<close>

text \<open>
  Claim C6. When the schema part of the start has succeeded and \<^verbatim>\<open>joblib.load\<close> raises, the
  start fails with an \<^verbatim>\<open>HTTPException\<close> of status 500 and the process answers no request.
  The detail is \<^verbatim>\<open>Model file 'xgboost_model.joblib' not found.\<close> exactly when the exception is
  a \<^verbatim>\<open>FileNotFoundError\<close>, and \<^verbatim>\<open>Error loading model: \<close> followed by the exception's text for
  every other exception, so the two cases are told apart by the message.
\<close>

theorem model_load_failure_fatal:
  assumes "load_schema env = Inr s" and "joblib_load env = Inl (c, msg)"
  shows "\<exists>detail.
           startup env = Inl (HTTPException 500 detail) \<and>
           run_service conv env reqs = (Some (HTTPException 500 detail), []) \<and>
           detail = (if c = FileNotFoundError
                     then ''Model file '' @ [CHR 0x27] @ ''xgboost_model.joblib'' @ [CHR 0x27]
                            @ '' not found.''
                     else ''Error loading model: '' @ msg) \<and>
           (detail = ''Model file '' @ [CHR 0x27] @ ''xgboost_model.joblib'' @ [CHR 0x27]
                       @ '' not found.'') = (c = FileNotFoundError)"
proof -
  obtain columns ftypes fs where s: "s = (columns, ftypes, fs)" by (cases s)
  show ?thesis
    using assms
    by (simp add: startup_def run_service_def load_model_def model_filename_def s)
qed

theorem model_load_failure_fatal_witness:
  "load_schema \<lparr>get_data = Inr [(''revenue'', ''float64'')],
                fit_transform = Inr \<lparr>arr_dtype = ''float64'', arr_ncols = 1\<rparr>,
                joblib_load = Inl (FileNotFoundError, ''No such file or directory''),
                refused_name = (\<lambda>name. False)\<rparr>
     = Inr ([''revenue''], [(''revenue'', PyFloat)], [(''revenue'', PyFloat)]) \<and>
   run_service number_validator
     \<lparr>get_data = Inr [(''revenue'', ''float64'')],
      fit_transform = Inr \<lparr>arr_dtype = ''float64'', arr_ncols = 1\<rparr>,
      joblib_load = Inl (FileNotFoundError, ''No such file or directory''),
      refused_name = (\<lambda>name. False)\<rparr>
     [GetHealth, PostPredict [(''revenue'', PFloat 12.5)]]
     = (Some (HTTPException 500
          (''Model file '' @ [CHR 0x27] @ ''xgboost_model.joblib'' @ [CHR 0x27] @ '' not found.'')),
        []) \<and>
   load_schema \<lparr>get_data = Inr [(''revenue'', ''float64'')],
                fit_transform = Inr \<lparr>arr_dtype = ''float64'', arr_ncols = 1\<rparr>,
                joblib_load = Inl (OtherException, ''invalid load key''),
                refused_name = (\<lambda>name. False)\<rparr>
     = Inr ([''revenue''], [(''revenue'', PyFloat)], [(''revenue'', PyFloat)]) \<and>
   run_service number_validator
     \<lparr>get_data = Inr [(''revenue'', ''float64'')],
      fit_transform = Inr \<lparr>arr_dtype = ''float64'', arr_ncols = 1\<rparr>,
      joblib_load = Inl (OtherException, ''invalid load key''),
      refused_name = (\<lambda>name. False)\<rparr>
     [GetHealth, PostPredict [(''revenue'', PFloat 12.5)]]
     = (Some (HTTPException 500 ''Error loading model: invalid load key''), [])"
proof -
  let ?e1 = "\<lparr>get_data = Inr [(''revenue'', ''float64'')],
      fit_transform = Inr \<lparr>arr_dtype = ''float64'', arr_ncols = 1\<rparr>,
      joblib_load = Inl (FileNotFoundError, ''No such file or directory''),
      refused_name = (\<lambda>name. False)\<rparr>"
  let ?e2 = "\<lparr>get_data = Inr [(''revenue'', ''float64'')],
      fit_transform = Inr \<lparr>arr_dtype = ''float64'', arr_ncols = 1\<rparr>,
      joblib_load = Inl (OtherException, ''invalid load key''),
      refused_name = (\<lambda>name. False)\<rparr>"
  let ?reqs = "[GetHealth, PostPredict [(''revenue'', PFloat 12.5)]]"
  have s1: "load_schema ?e1
      = Inr ([''revenue''], [(''revenue'', PyFloat)], [(''revenue'', PyFloat)])"
    by (simp add: load_schema_def DataFrame_def create_model_def is_valid_field_name_def
        build_feature_types_def dict_get_def dtype_mapping_def Let_def)
  have s2: "load_schema ?e2
      = Inr ([''revenue''], [(''revenue'', PyFloat)], [(''revenue'', PyFloat)])"
    by (simp add: load_schema_def DataFrame_def create_model_def is_valid_field_name_def
        build_feature_types_def dict_get_def dtype_mapping_def Let_def)
  have j1: "joblib_load ?e1 = Inl (FileNotFoundError, ''No such file or directory'')" by simp
  have j2: "joblib_load ?e2 = Inl (OtherException, ''invalid load key'')" by simp
  have r1: "run_service number_validator ?e1 ?reqs
      = (Some (HTTPException 500
          (''Model file '' @ [CHR 0x27] @ ''xgboost_model.joblib'' @ [CHR 0x27] @ '' not found.'')),
        [])"
    using model_load_failure_fatal [OF s1 j1, of number_validator ?reqs] by auto
  have r2: "run_service number_validator ?e2 ?reqs
      = (Some (HTTPException 500 ''Error loading model: invalid load key''), [])"
    using model_load_failure_fatal [OF s2 j2, of number_validator ?reqs] by auto
  show ?thesis using s1 s2 r1 r2 by blast
qed

subsection \<open>The schema of the started service\<close>




end
